theory Spec2Isabelle
  imports Main
begin

section \<open>Python values, grids and the candidate program\<close>

text \<open>
  The validator handles JSON grids and whatever the generated function returns. The value
  domain modelled here is the one of grids: \<open>None\<close>, integers and (nested) lists. Floats,
  strings and dictionaries as return values are outside the model.

  A call of the candidate's entry point returns a value, raises an exception that
  \<open>except Exception\<close> catches (\<open>Raises\<close>), raises one that it does not catch, as
  \<open>SystemExit\<close> from \<open>sys.exit()\<close> or \<open>KeyboardInterrupt\<close> (\<open>Exits\<close>), or never
  returns (\<open>Hangs\<close>). The candidate may keep state between calls (module globals), so a
  program is a function of its state and its argument.
\<close>

datatype pyval = PNone | PInt int | PList "pyval list"

datatype outcome = Returns pyval | Raises string | Exits string | Hangs

text \<open>
  How a part of the pipeline that runs the candidate ends: it returns its value, it never
  returns, or an exception that no handler of the pipeline catches propagates out of it.
  Every handler of the repository is \<open>except Exception\<close>, so such an exception leaves
  \<open>passes_training_examples\<close>, the loop over the attempts and the loop over the tasks,
  and ends the run.
\<close>

datatype 'a result = Done 'a | Blocks | Aborts string

type_synonym 's program = "'s \<Rightarrow> pyval \<Rightarrow> outcome \<times> 's"

text \<open>An example is a JSON object (keys \<open>input\<close>, \<open>output\<close>), a task a JSON object
  (keys \<open>train\<close>, \<open>test\<close>).\<close>

type_synonym example = "string \<rightharpoonup> pyval"

type_synonym task_data = "string \<rightharpoonup> example list"

subsection \<open>\<open>np.array(v, dtype=int)\<close> and \<open>np.array_equal\<close>\<close>

text \<open>
  An integer array is its shape and its elements in row-major order. The conversion raises
  (here: \<open>None\<close>) on \<open>None\<close>, on an integer outside the 64-bit range and on a ragged
  nesting; an empty list is an array of shape \<open>(0,)\<close>.
\<close>

type_synonym ndarray = "nat list \<times> int list"

definition fits_int64 :: "int \<Rightarrow> bool" where
  "fits_int64 n = (- (2 ^ 63) \<le> n \<and> n < 2 ^ 63)"

fun np_array :: "pyval \<Rightarrow> ndarray option" where
  "np_array PNone = None"
| "np_array (PInt n) = (if fits_int64 n then Some ([], [n]) else None)"
| "np_array (PList vs) =
     (let subs = map np_array vs in
      if None \<in> set subs then None
      else (case map the subs of
              [] \<Rightarrow> Some ([0], [])
            | a # rest \<Rightarrow>
                if \<forall>b \<in> set rest. fst b = fst a
                then Some (length vs # fst a, concat (map snd (a # rest)))
                else None))"

definition array_equal :: "ndarray \<Rightarrow> ndarray \<Rightarrow> bool" where
  "array_equal a1 a2 = (fst a1 = fst a2 \<and> snd a1 = snd a2)"

subsection \<open>Formatting\<close>

text \<open>\<open>str(n)\<close> for a non-negative integer.\<close>

fun str_nat :: "nat \<Rightarrow> string" where
  "str_nat n =
     (if n < 10 then [char_of (48 + n)]
      else str_nat (n div 10) @ [char_of (48 + n mod 10)])"

declare str_nat.simps [simp del]

section \<open>CodeValidator\<close>

text \<open>
  \<open>ast.parse\<close> and the import of the temporary module are the Python interpreter's work:
  they are parameters of the model, as are the JSON serialiser, the generation service and
  the task files. Calls of the operating system (temporary file, \<open>os.remove\<close>, \<open>open\<close>)
  are taken to succeed.

  Loading a source gives no module spec, raises (an \<open>Exception\<close>, or an exception
  outside it) or hangs while the module body runs, or gives a module: without \<open>p\<close>, with
  a \<open>p\<close> that is not callable, or with a callable \<open>p\<close> and the module's initial state.
  The parser, the generation service and the task files return or raise an \<open>Exception\<close>.
\<close>

datatype parse_result = ParseOk | ParseSyntaxError | ParseRaises string

datatype 's load_result =
    SpecNone
  | LoadRaises string
  | LoadExits string
  | LoadHangs
  | NoP
  | NotCallable
  | Callable "'s program" 's

record 's env =
  ast_parse :: "string \<Rightarrow> parse_result"
  exec_module :: "string \<Rightarrow> 's load_result"
  json_dumps :: "example list \<Rightarrow> string"
  llm_create :: "nat \<Rightarrow> string \<Rightarrow> string + string"
  load_task :: "string \<Rightarrow> string + task_data"

text \<open>\<open>is_syntax_valid\<close> catches \<open>SyntaxError\<close> only; any other exception of the parser
  propagates (\<open>Inl\<close>).\<close>

definition is_syntax_valid :: "'s env \<Rightarrow> string \<Rightarrow> string + bool" where
  "is_syntax_valid env code =
     (case ast_parse env code of
        ParseOk \<Rightarrow> Inr True
      | ParseSyntaxError \<Rightarrow> Inr False
      | ParseRaises e \<Rightarrow> Inl e)"

text \<open>
  The body of the loop over the training examples: the \<open>try\<close> block either adds one to
  \<open>num_correct\<close>, prints a mismatch, or lands in \<open>except Exception\<close> (a missing key, an
  \<open>Exception\<close> of the program, a value \<open>np.array\<close> rejects). The expected output is read
  before the program is called. A call that never returns blocks the body; an exception
  outside \<open>Exception\<close> passes the handler.
\<close>

datatype example_result = Correct | Mismatch | Fault

definition score_example :: "'s program \<Rightarrow> 's \<Rightarrow> example \<Rightarrow> (example_result \<times> 's) result" where
  "score_example program s example =
     (case example ''input'' of
        None \<Rightarrow> Done (Fault, s)
      | Some input_grid \<Rightarrow>
          (case example ''output'' of
             None \<Rightarrow> Done (Fault, s)
           | Some expected \<Rightarrow>
               (case program s input_grid of
                  (Hangs, s') \<Rightarrow> Blocks
                | (Exits e, s') \<Rightarrow> Aborts e
                | (Raises e, s') \<Rightarrow> Done (Fault, s')
                | (Returns result, s') \<Rightarrow>
                    (case np_array result of
                       None \<Rightarrow> Done (Fault, s')
                     | Some result_np \<Rightarrow>
                         (case np_array expected of
                            None \<Rightarrow> Done (Fault, s')
                          | Some expected_np \<Rightarrow>
                              if array_equal result_np expected_np
                              then Done (Correct, s')
                              else Done (Mismatch, s'))))))"

fun score_examples :: "'s program \<Rightarrow> 's \<Rightarrow> example list \<Rightarrow> nat \<Rightarrow> (nat \<times> 's) result" where
  "score_examples program s [] num_correct = Done (num_correct, s)"
| "score_examples program s (example # rest) num_correct =
     (case score_example program s example of
        Blocks \<Rightarrow> Blocks
      | Aborts e \<Rightarrow> Aborts e
      | Done (r, s') \<Rightarrow>
          score_examples program s' rest
            (if r = Correct then num_correct + 1 else num_correct))"

definition tally_message :: "nat \<Rightarrow> nat \<Rightarrow> string" where
  "tally_message num_correct total_n =
     ''Passed '' @ str_nat num_correct @ ''/'' @ str_nat total_n @ '' train examples''"

definition get_train :: "task_data \<Rightarrow> example list" where
  "get_train task_data = (case task_data ''train'' of None \<Rightarrow> [] | Some t \<Rightarrow> t)"

text \<open>\<open>passes_training_examples\<close>: the outer handler is \<open>except Exception\<close> too.\<close>

definition passes_training_examples ::
    "'s env \<Rightarrow> task_data \<Rightarrow> string \<Rightarrow> (bool \<times> string) result" where
  "passes_training_examples env task_data code =
     (case exec_module env code of
        SpecNone \<Rightarrow> Done (False, ''Could not create module spec'')
      | LoadRaises e \<Rightarrow> Done (False, e)
      | LoadExits e \<Rightarrow> Aborts e
      | LoadHangs \<Rightarrow> Blocks
      | NoP \<Rightarrow> Done (False, ''Function p() not found'')
      | NotCallable \<Rightarrow> Done (False, ''p is not callable'')
      | Callable program s0 \<Rightarrow>
          (let train_examples = get_train task_data;
               total_n = length train_examples
           in case score_examples program s0 train_examples 0 of
                Blocks \<Rightarrow> Blocks
              | Aborts e \<Rightarrow> Aborts e
              | Done (num_correct, s') \<Rightarrow>
                  Done (num_correct = total_n, tally_message num_correct total_n)))"

definition validate_code_length :: "string \<Rightarrow> nat \<Rightarrow> bool" where
  "validate_code_length code max_length = (length code \<le> max_length)"


section \<open>OutputParser\<close>

text \<open>
  Strings are lists of characters read as code points below 256. \<open>str.strip()\<close> and the
  regular expression class \<open>\s\<close> use the same whitespace: the ASCII ones (9 to 13, 28 to
  32) and, in this range, U+0085 and U+00A0.
\<close>

definition py_isspace :: "char \<Rightarrow> bool" where
  "py_isspace c = (of_char c \<in> {9, 10, 11, 12, 13, 28, 29, 30, 31, 32, 133, 160 :: nat})"

definition strip :: "string \<Rightarrow> string" where
  "strip s = rev (dropWhile py_isspace (rev (dropWhile py_isspace s)))"

text \<open>The leftmost occurrence of a pattern: the text before it and the text after it.\<close>

fun split_at_first :: "string \<Rightarrow> string \<Rightarrow> (string \<times> string) option" where
  "split_at_first pat [] = (if pat = [] then Some ([], []) else None)"
| "split_at_first pat (c # cs) =
     (if take (length pat) (c # cs) = pat then Some ([], drop (length pat) (c # cs))
      else map_option (\<lambda>(before, after). (c # before, after)) (split_at_first pat cs))"

definition contains :: "string \<Rightarrow> string \<Rightarrow> bool" where
  "contains pat s = (split_at_first pat s \<noteq> None)"

text \<open>
  The first element of \<open>re.findall(opening + '(.*?)```', raw, re.DOTALL)\<close>, if there is
  one. The leftmost match starts at the leftmost opening fence that has a closing fence
  behind it; a closing fence behind a later opening is behind the leftmost one too, so that
  is the leftmost opening or none. The lazy group then ends at the first closing fence.
\<close>

definition findall_first :: "string \<Rightarrow> string \<Rightarrow> string option" where
  "findall_first opening raw =
     (case split_at_first opening raw of
        None \<Rightarrow> None
      | Some (before, after) \<Rightarrow>
          (case split_at_first ''```'' after of
             None \<Rightarrow> None
           | Some (inner, behind) \<Rightarrow> Some inner))"

text \<open>
  \<open>re.sub(r'^python\s*', '', code, flags=re.MULTILINE)\<close>: with \<open>re.MULTILINE\<close> the anchor
  matches at the start of the string and after every newline, and every match is removed.
  The flag says whether the position is at the start of a line.
\<close>

function sub_python :: "bool \<Rightarrow> string \<Rightarrow> string" where
  "sub_python bol [] = []"
| "sub_python bol (c # cs) =
     (if bol \<and> take 6 (c # cs) = ''python''
      then (let ws = takeWhile py_isspace (drop 6 (c # cs))
            in sub_python (ws \<noteq> [] \<and> last ws = CHR 0x0A)
                 (dropWhile py_isspace (drop 6 (c # cs))))
      else c # sub_python (c = CHR 0x0A) cs)"
  by pat_completeness auto
termination
  by (relation "measure (\<lambda>(bol, s). length s)")
     (auto intro: le_less_trans [OF length_dropWhile_le])

definition extract_code :: "string \<Rightarrow> string" where
  "extract_code raw_output =
     (let code =
        (case findall_first ''```python'' raw_output of
           Some m \<Rightarrow> strip m
         | None \<Rightarrow>
             (case findall_first ''```'' raw_output of
                Some m \<Rightarrow> sub_python True (strip m)
              | None \<Rightarrow> strip raw_output));
          code' =
        (if \<not> contains ''def p(g)'' code \<and> \<not> contains ''def p(g:)'' code
         then strip code else code)
      in strip code')"

section \<open>PromptBuilder\<close>

text \<open>
  The two templates, as functions of the fields \<open>str.format\<close> fills in. A prompt is only
  put together, never taken apart, so the two characters of the templates outside ASCII are
  written as their UTF-8 bytes.
\<close>

definition INITIAL_PROMPT_TEMPLATE :: "string \<Rightarrow> string \<Rightarrow> string" where
  "INITIAL_PROMPT_TEMPLATE train_examples test_examples =
     ''You are an expert at solving abstract reasoning challenges (ARC tasks) using pattern recognition.\<newline>'' @
     ''\<newline>'' @
     ''CRITICAL: First analyze the examples carefully before coding:\<newline>'' @
     ''\<newline>'' @
     ''1. **Dimension Analysis**: \<newline>'' @
     ''   - What are input dimensions? What are output dimensions?\<newline>'' @
     ''   - Is output = input '' @
     [CHR 0xC3, CHR 0x97] @
     '' N? Is it a tiling/replication pattern?\<newline>'' @
     ''   - Example: 3'' @
     [CHR 0xC3, CHR 0x97] @
     ''3 input '' @
     [CHR 0xE2, CHR 0x86, CHR 0x92] @
     '' 9'' @
     [CHR 0xC3, CHR 0x97] @
     ''9 output means 3'' @
     [CHR 0xC3, CHR 0x97] @
     '' scaling\<newline>'' @
     ''\<newline>'' @
     ''2. **Pattern Discovery**:\<newline>'' @
     ''   - Compare ALL training examples - what's consistent across them?\<newline>'' @
     ''   - Look at zeros vs non-zeros - different behaviors?\<newline>'' @
     ''   - Is the input used as: (a) data to copy, (b) a mask/template, (c) coordinates?\<newline>'' @
     ''\<newline>'' @
     ''3. **Tiling Patterns**:\<newline>'' @
     ''   - If output is M'' @
     [CHR 0xC3, CHR 0x97] @
     ''N times larger, each input cell might control an M'' @
     [CHR 0xC3, CHR 0x97] @
     ''N block\<newline>'' @
     ''   - CRITICAL: Does each block contain: (a) the input cell value REPEATED, or (b) the ENTIRE INPUT GRID COPIED?\<newline>'' @
     ''   - Check: Do zero cells behave differently than non-zero cells?\<newline>'' @
     ''   - Example: If input cell[i][j]=0 '' @
     [CHR 0xE2, CHR 0x86, CHR 0x92] @
     '' block might be all zeros. If input cell[i][j]!=0 '' @
     [CHR 0xE2, CHR 0x86, CHR 0x92] @
     '' block might be THE FULL INPUT replicated!\<newline>'' @
     ''\<newline>'' @
     ''TRAIN EXAMPLES:\<newline>'' @
     train_examples @
     ''\<newline>'' @
     ''\<newline>'' @
     ''TEST EXAMPLES (for validation):\<newline>'' @
     test_examples @
     ''\<newline>'' @
     ''\<newline>'' @
     ''Now write a Python function `def p(g):` that implements the discovered pattern.\<newline>'' @
     ''\<newline>'' @
     ''Requirements:\<newline>'' @
     ''- Input `g`: list of lists of integers (0-9)\<newline>'' @
     ''- Return: transformed grid (same format)\<newline>'' @
     ''- Use ONLY Python standard library (no imports unless critical: collections, itertools, copy)\<newline>'' @
     ''- Must work for ALL examples\<newline>'' @
     ''\<newline>'' @
     ''Write ONLY Python code - no markdown, no explanations.''"

definition REFINEMENT_PROMPT_TEMPLATE :: "string \<Rightarrow> string \<Rightarrow> string \<Rightarrow> string \<Rightarrow> string" where
  "REFINEMENT_PROMPT_TEMPLATE previous_code error_message train_examples test_examples =
     ''You are an expert at solving abstract reasoning challenges (ARC tasks). Your previous solution FAILED validation.\<newline>'' @
     ''\<newline>'' @
     ''PREVIOUS ATTEMPT (FAILED):\<newline>'' @
     ''```python\<newline>'' @
     previous_code @
     ''\<newline>'' @
     ''```\<newline>'' @
     ''\<newline>'' @
     ''VALIDATION ERROR:\<newline>'' @
     error_message @
     ''\<newline>'' @
     ''\<newline>'' @
     ''TRAIN EXAMPLES (Your solution must pass ALL of these):\<newline>'' @
     train_examples @
     ''\<newline>'' @
     ''\<newline>'' @
     ''TEST EXAMPLES (for pattern understanding):\<newline>'' @
     test_examples @
     ''\<newline>'' @
     ''\<newline>'' @
     ''ANALYSIS OF FAILURE:\<newline>'' @
     ''Your previous code didn't match the expected outputs. Carefully analyze:\<newline>'' @
     ''1. What pattern did you miss? Compare your output vs expected output\<newline>'' @
     ''2. Are you handling ALL cases correctly (zeros, non-zeros, edge cases)?\<newline>'' @
     ''3. Is the transformation applied correctly to EVERY training example?\<newline>'' @
     ''4. Did you misunderstand the grid transformation rule?\<newline>'' @
     ''\<newline>'' @
     ''THINK STEP-BY-STEP:\<newline>'' @
     ''- Re-examine the input'' @
     [CHR 0xE2, CHR 0x86, CHR 0x92] @
     ''output transformation in each example\<newline>'' @
     ''- Identify what's different between your approach and the actual pattern\<newline>'' @
     ''- Consider: tiling, replication, masking, conditional logic, spatial relationships\<newline>'' @
     ''\<newline>'' @
     ''Now write a CORRECTED Python function `def p(g):` that fixes the errors.\<newline>'' @
     ''\<newline>'' @
     ''Requirements:\<newline>'' @
     ''- Must pass ALL training examples\<newline>'' @
     ''- Input `g`: list of lists of integers (0-9)\<newline>'' @
     ''- Return: transformed grid (same format)\<newline>'' @
     ''- Use ONLY Python standard library\<newline>'' @
     ''\<newline>'' @
     ''Write ONLY Python code - no markdown, no explanations.''"

text \<open>\<open>build_prompt\<close>: the refinement template needs a previous code and an error message
  that are both present and not empty (Python's truth value of a string).\<close>

definition build_prompt ::
    "'s env \<Rightarrow> nat \<Rightarrow> example list \<Rightarrow> example list \<Rightarrow> string option \<Rightarrow> string option \<Rightarrow> string" where
  "build_prompt env task_id train_examples test_examples previous_code error_message =
     (let train_formatted = json_dumps env train_examples;
          test_formatted =
            (if test_examples \<noteq> [] then json_dumps env (take 3 test_examples) else ''[]'')
      in case previous_code of
           None \<Rightarrow> INITIAL_PROMPT_TEMPLATE train_formatted test_formatted
         | Some pc \<Rightarrow>
             (case error_message of
                None \<Rightarrow> INITIAL_PROMPT_TEMPLATE train_formatted test_formatted
              | Some em \<Rightarrow>
                  if pc \<noteq> [] \<and> em \<noteq> []
                  then REFINEMENT_PROMPT_TEMPLATE pc em train_formatted test_formatted
                  else INITIAL_PROMPT_TEMPLATE train_formatted test_formatted))"

section \<open>The state of a run\<close>

text \<open>
  The counters of \<open>run_pipeline\<close>, the call counter of the generator, the output directory
  (solutions by task number, failed attempts by task number and attempt) and the rows of
  the progress log (without their timestamp). \<open>requests\<close> is a history variable: the
  prompts handed to \<open>generate\<close>, in order, whether the call succeeded or not.
\<close>

record stats =
  stat_success :: nat
  stat_syntax_error :: nat
  stat_validation_failed :: nat
  stat_exception :: nat
  stat_skipped :: nat

record log_row =
  row_task_id :: nat
  row_status :: string
  row_code_length :: nat
  row_validation_passed :: bool
  row_details :: string

record run_state =
  api_calls :: nat
  requests :: "string list"
  counters :: stats
  solutions :: "nat \<rightharpoonup> string"
  failed_files :: "nat \<times> nat \<rightharpoonup> string"
  progress_log :: "log_row list"

record config =
  max_api_calls :: int
  retry_on_failure :: bool
  max_retries :: int

text \<open>\<open>LLMCodeGenerator.generate\<close>: the counter grows only when the service answers.\<close>

definition generate :: "'s env \<Rightarrow> string \<Rightarrow> run_state \<Rightarrow> (string + string) \<times> run_state" where
  "generate env prompt st =
     (case llm_create env (length (requests st)) prompt of
        Inl e \<Rightarrow> (Inl e, st\<lparr>requests := requests st @ [prompt]\<rparr>)
      | Inr raw_output \<Rightarrow>
          (Inr raw_output,
           st\<lparr>requests := requests st @ [prompt], api_calls := api_calls st + 1\<rparr>))"

definition file_exists :: "run_state \<Rightarrow> nat \<Rightarrow> bool" where
  "file_exists st task_id = (solutions st task_id \<noteq> None)"

definition save_code :: "nat \<Rightarrow> string \<Rightarrow> run_state \<Rightarrow> run_state" where
  "save_code task_id code st = st\<lparr>solutions := (solutions st)(task_id \<mapsto> code)\<rparr>"

definition log_progress :: "nat \<Rightarrow> string \<Rightarrow> nat \<Rightarrow> bool \<Rightarrow> string \<Rightarrow> run_state \<Rightarrow> run_state" where
  "log_progress task_id status code_length validation_passed details st =
     st\<lparr>progress_log := progress_log st @
        [\<lparr>row_task_id = task_id, row_status = status, row_code_length = code_length,
          row_validation_passed = validation_passed, row_details = details\<rparr>]\<rparr>"

definition get_train_test :: "task_data \<Rightarrow> example list \<times> example list" where
  "get_train_test task_data =
     (case task_data ''train'' of None \<Rightarrow> [] | Some t \<Rightarrow> t,
      case task_data ''test'' of None \<Rightarrow> [] | Some t \<Rightarrow> t)"

subsection \<open>TaskManager: the task number of a path\<close>

text \<open>\<open>re.search(r'task(\d+)\.json', path)\<close>: the leftmost place where \<open>task\<close>, a maximal
  run of digits and \<open>.json\<close> follow each other; \<open>None\<close> is the \<open>ValueError\<close>.\<close>

definition is_digit :: "char \<Rightarrow> bool" where
  "is_digit c = (48 \<le> (of_char c :: nat) \<and> (of_char c :: nat) \<le> 57)"

definition int_of_digits :: "string \<Rightarrow> nat" where
  "int_of_digits ds = foldl (\<lambda>acc c. 10 * acc + (of_char c - 48)) 0 ds"

definition match_task_here :: "string \<Rightarrow> nat option" where
  "match_task_here s =
     (if take 4 s = ''task''
      then (let ds = takeWhile is_digit (drop 4 s);
                rest = dropWhile is_digit (drop 4 s)
            in if ds \<noteq> [] \<and> take 5 rest = ''.json'' then Some (int_of_digits ds) else None)
      else None)"

fun get_task_num_from_path :: "string \<Rightarrow> nat option" where
  "get_task_num_from_path [] = None"
| "get_task_num_from_path (c # cs) =
     (case match_task_here (c # cs) of
        Some n \<Rightarrow> Some n
      | None \<Rightarrow> get_task_num_from_path cs)"

section \<open>run\_pipeline\<close>

subsection \<open>One attempt\<close>

record attempt_vars =
  success :: bool
  previous_code :: "string option"
  previous_error :: "string option"
  run :: run_state

datatype ctrl = Continue | Break

definition bump_syntax_error :: "run_state \<Rightarrow> run_state" where
  "bump_syntax_error st =
     st\<lparr>counters := (counters st)\<lparr>stat_syntax_error := stat_syntax_error (counters st) + 1\<rparr>\<rparr>"

definition bump_validation_failed :: "run_state \<Rightarrow> run_state" where
  "bump_validation_failed st =
     st\<lparr>counters := (counters st)\<lparr>stat_validation_failed := stat_validation_failed (counters st) + 1\<rparr>\<rparr>"

definition bump_success :: "run_state \<Rightarrow> run_state" where
  "bump_success st =
     st\<lparr>counters := (counters st)\<lparr>stat_success := stat_success (counters st) + 1\<rparr>\<rparr>"

definition bump_exception :: "run_state \<Rightarrow> run_state" where
  "bump_exception st =
     st\<lparr>counters := (counters st)\<lparr>stat_exception := stat_exception (counters st) + 1\<rparr>\<rparr>"

definition bump_skipped :: "run_state \<Rightarrow> run_state" where
  "bump_skipped st =
     st\<lparr>counters := (counters st)\<lparr>stat_skipped := stat_skipped (counters st) + 1\<rparr>\<rparr>"

text \<open>\<open>if retry_on_failure and attempt < max_retries: continue\<close>, else \<open>break\<close>.\<close>

definition retry_or_break :: "config \<Rightarrow> nat \<Rightarrow> ctrl" where
  "retry_or_break cfg attempt =
     (if retry_on_failure cfg \<and> int attempt < max_retries cfg then Continue else Break)"

text \<open>The handler \<open>except Exception as e\<close> of an attempt: the previous code is kept.\<close>

definition on_exception :: "config \<Rightarrow> nat \<Rightarrow> nat \<Rightarrow> string \<Rightarrow> attempt_vars \<Rightarrow> ctrl \<times> attempt_vars" where
  "on_exception cfg task_id attempt e v =
     (retry_or_break cfg attempt,
      v\<lparr>previous_error := Some (''Exception: '' @ e),
        run := log_progress task_id ''exception'' 0 False e (bump_exception (run v))\<rparr>)"

definition attempt_prompt ::
    "'s env \<Rightarrow> nat \<Rightarrow> example list \<Rightarrow> example list \<Rightarrow> nat \<Rightarrow> attempt_vars \<Rightarrow> string" where
  "attempt_prompt env task_id train_examples test_examples attempt v =
     (if attempt = 0 then build_prompt env task_id train_examples test_examples None None
      else build_prompt env task_id train_examples test_examples
             (previous_code v) (previous_error v))"

definition success_details :: "nat \<Rightarrow> nat \<Rightarrow> string" where
  "success_details calls attempt =
     ''api_calls='' @ str_nat calls @ '',attempt='' @ str_nat (attempt + 1)"

text \<open>The body of \<open>for attempt in range(max_retries + 1)\<close>. Its handler is
  \<open>except Exception\<close>: what blocks or leaves the validator blocks or leaves the body.\<close>

definition attempt_body ::
    "'s env \<Rightarrow> config \<Rightarrow> nat \<Rightarrow> task_data \<Rightarrow> example list \<Rightarrow> example list \<Rightarrow> nat \<Rightarrow>
     attempt_vars \<Rightarrow> (ctrl \<times> attempt_vars) result" where
  "attempt_body env cfg task_id task_data train_examples test_examples attempt v =
     (let prompt = attempt_prompt env task_id train_examples test_examples attempt v
      in case generate env prompt (run v) of
           (Inl e, st1) \<Rightarrow> Done (on_exception cfg task_id attempt e (v\<lparr>run := st1\<rparr>))
         | (Inr raw_output, st1) \<Rightarrow>
             (let code = extract_code raw_output
              in case is_syntax_valid env code of
                   Inl e \<Rightarrow> Done (on_exception cfg task_id attempt e (v\<lparr>run := st1\<rparr>))
                 | Inr False \<Rightarrow>
                     Done (retry_or_break cfg attempt,
                           v\<lparr>previous_code := Some code,
                             previous_error := Some ''Syntax error: Code has invalid Python syntax'',
                             run := log_progress task_id ''syntax_error'' (length code) False []
                                      (bump_syntax_error st1)\<rparr>)
                 | Inr True \<Rightarrow>
                     (case passes_training_examples env task_data code of
                        Blocks \<Rightarrow> Blocks
                      | Aborts e \<Rightarrow> Aborts e
                      | Done (passed, message) \<Rightarrow>
                          if passed
                          then Done (Break,
                                 v\<lparr>success := True,
                                   run := bump_success
                                     (log_progress task_id ''validated_success'' (length code) True
                                        (success_details (api_calls st1) attempt)
                                        (save_code task_id code st1))\<rparr>)
                          else Done (retry_or_break cfg attempt,
                                 v\<lparr>previous_code := Some code,
                                   previous_error := Some message,
                                   run := log_progress task_id ''failed_validation'' (length code)
                                            False message
                                            ((bump_validation_failed st1)
                                               \<lparr>failed_files := (failed_files st1)
                                                  ((task_id, attempt + 1) \<mapsto> code)\<rparr>)\<rparr>))))"

subsection \<open>The loops\<close>

fun attempt_loop ::
    "(nat \<Rightarrow> attempt_vars \<Rightarrow> (ctrl \<times> attempt_vars) result) \<Rightarrow> nat list \<Rightarrow> attempt_vars \<Rightarrow>
     attempt_vars result" where
  "attempt_loop body [] v = Done v"
| "attempt_loop body (attempt # rest) v =
     (case body attempt v of
        Blocks \<Rightarrow> Blocks
      | Aborts e \<Rightarrow> Aborts e
      | Done (Break, v') \<Rightarrow> Done v'
      | Done (Continue, v') \<Rightarrow> attempt_loop body rest v')"

text \<open>\<open>range(max_retries + 1)\<close>.\<close>

definition attempts_range :: "config \<Rightarrow> nat list" where
  "attempts_range cfg = [0 ..< nat (max_retries cfg + 1)]"

definition initial_vars :: "run_state \<Rightarrow> attempt_vars" where
  "initial_vars st = \<lparr>success = False, previous_code = None, previous_error = None, run = st\<rparr>"

text \<open>The body of the loop over the task paths, below the budget check. An \<open>Exception\<close>
  that reaches the handler of the task (no task number in the path, an unreadable task
  file) is counted; that handler is \<open>except Exception\<close> as well.\<close>

definition process_task :: "'s env \<Rightarrow> config \<Rightarrow> string \<Rightarrow> run_state \<Rightarrow> run_state result" where
  "process_task env cfg task_path st =
     (case get_task_num_from_path task_path of
        None \<Rightarrow> Done (bump_exception st)
      | Some task_id \<Rightarrow>
          if file_exists st task_id then Done (bump_skipped st)
          else (case load_task env task_path of
                  Inl e \<Rightarrow> Done (bump_exception st)
                | Inr task_data \<Rightarrow>
                    (case get_train_test task_data of
                       (train_examples, test_examples) \<Rightarrow>
                         (case attempt_loop
                                 (attempt_body env cfg task_id task_data train_examples
                                    test_examples)
                                 (attempts_range cfg) (initial_vars st) of
                            Blocks \<Rightarrow> Blocks
                          | Aborts e \<Rightarrow> Aborts e
                          | Done v' \<Rightarrow> Done (run v')))))"

fun run_tasks :: "'s env \<Rightarrow> config \<Rightarrow> string list \<Rightarrow> run_state \<Rightarrow> run_state result" where
  "run_tasks env cfg [] st = Done st"
| "run_tasks env cfg (task_path # rest) st =
     (if int (api_calls st) \<ge> max_api_calls cfg then Done st
      else (case process_task env cfg task_path st of
              Blocks \<Rightarrow> Blocks
            | Aborts e \<Rightarrow> Aborts e
            | Done st' \<Rightarrow> run_tasks env cfg rest st'))"

text \<open>\<open>task_paths[:max_api_calls]\<close>: a negative bound counts from the end.\<close>

definition slice_to :: "'a list \<Rightarrow> int \<Rightarrow> 'a list" where
  "slice_to xs n = (if 0 \<le> n then take (nat n) xs else take (length xs - nat (- n)) xs)"

definition run_pipeline :: "'s env \<Rightarrow> config \<Rightarrow> string list \<Rightarrow> run_state \<Rightarrow> run_state result" where
  "run_pipeline env cfg task_paths st =
     run_tasks env cfg (slice_to task_paths (max_api_calls cfg)) st"

section \<open>What the specification says of the validator\<close>


definition state_after :: "'s program \<Rightarrow> 's \<Rightarrow> example \<Rightarrow> 's" where
  "state_after program s example =
     (case example ''input'' of
        None \<Rightarrow> s
      | Some input_grid \<Rightarrow>
          (case example ''output'' of
             None \<Rightarrow> s
           | Some expected \<Rightarrow> snd (program s input_grid)))"


text \<open>
  How a call on a training example fails to come back, if it does: it runs forever, or it
  raises an exception that \<open>except Exception\<close> does not catch. An example without the key
  \<open>input\<close> or \<open>output\<close> is not called. \<open>first_stop\<close> is the first such call in the sequence
  of the calls.
\<close>

datatype stop = Hang | Exit string

definition call_stop :: "'s program \<Rightarrow> 's \<Rightarrow> example \<Rightarrow> stop option" where
  "call_stop program s example =
     (case example ''input'' of
        None \<Rightarrow> None
      | Some input_grid \<Rightarrow>
          (case example ''output'' of
             None \<Rightarrow> None
           | Some expected \<Rightarrow>
               (case fst (program s input_grid) of
                  Hangs \<Rightarrow> Some Hang
                | Exits e \<Rightarrow> Some (Exit e)
                | Raises e \<Rightarrow> None
                | Returns result \<Rightarrow> None)))"

fun first_stop :: "'s program \<Rightarrow> 's \<Rightarrow> example list \<Rightarrow> stop option" where
  "first_stop program s [] = None"
| "first_stop program s (example # rest) =
     (case call_stop program s example of
        Some st \<Rightarrow> Some st
      | None \<Rightarrow> first_stop program (state_after program s example) rest)"


section \<open>Concrete candidates, tasks and services\<close>

definition grid_a :: pyval where
  "grid_a = PList [PList [PInt 0, PInt 1], PList [PInt 1, PInt 0]]"

definition grid_b :: pyval where
  "grid_b = PList [PList [PInt 1, PInt 0], PList [PInt 0, PInt 1]]"

definition flip_example :: example where
  "flip_example = [''input'' \<mapsto> grid_a, ''output'' \<mapsto> grid_b]"

definition flip_task :: task_data where
  "flip_task = [''train'' \<mapsto> [flip_example], ''test'' \<mapsto> []]"

definition two_example_task :: task_data where
  "two_example_task = [''train'' \<mapsto> [flip_example, flip_example], ''test'' \<mapsto> []]"

text \<open>An example without the keys \<open>input\<close> and \<open>output\<close>: reading it raises \<open>KeyError\<close>.\<close>

definition no_keys_example :: example where
  "no_keys_example = Map.empty"

definition no_train_task :: task_data where
  "no_train_task = [''train'' \<mapsto> [], ''test'' \<mapsto> []]"

text \<open>\<open>def p(g): return g[::-1]\<close>\<close>

definition reverse_rows :: "unit program" where
  "reverse_rows s g =
     (case g of
        PList rows \<Rightarrow> (Returns (PList (rev rows)), s)
      | PInt n \<Rightarrow> (Raises ''TypeError'', s)
      | PNone \<Rightarrow> (Raises ''TypeError'', s))"

text \<open>\<open>def p(g): return g\<close>\<close>

definition return_g :: "unit program" where
  "return_g s g = (Returns g, s)"

text \<open>\<open>def p(g): raise ValueError('boom')\<close>\<close>

definition raise_boom :: "unit program" where
  "raise_boom s g = (Raises ''boom'', s)"

text \<open>\<open>def p(g): raise SystemExit('bye')\<close>\<close>

definition exit_now :: "unit program" where
  "exit_now s g = (Exits ''bye'', s)"

text \<open>\<open>def p(g): while True: pass\<close>\<close>

definition loop_forever :: "unit program" where
  "loop_forever s g = (Hangs, s)"

text \<open>A program with a counter in a module global: it raises on its first call and
  reverses the rows afterwards.\<close>

definition raise_once :: "nat program" where
  "raise_once s g =
     (if s = 0 then (Raises ''first call'', Suc s)
      else (case g of
              PList rows \<Rightarrow> (Returns (PList (rev rows)), Suc s)
            | PInt n \<Rightarrow> (Raises ''TypeError'', Suc s)
            | PNone \<Rightarrow> (Raises ''TypeError'', Suc s)))"

text \<open>The same counter, with \<open>raise SystemExit('bye')\<close> on the first call.\<close>

definition exit_once :: "nat program" where
  "exit_once s g =
     (if s = 0 then (Exits ''bye'', Suc s)
      else (case g of
              PList rows \<Rightarrow> (Returns (PList (rev rows)), Suc s)
            | PInt n \<Rightarrow> (Raises ''TypeError'', Suc s)
            | PNone \<Rightarrow> (Raises ''TypeError'', Suc s)))"

definition src_reverse :: string where
  "src_reverse = ''def p(g):\<newline>    return g[::-1]''"

definition src_return_g :: string where
  "src_return_g = ''def p(g):return g''"

definition src_raise :: string where
  "src_raise = ''def p(g):\<newline>    raise ValueError('boom')''"

definition src_loop :: string where
  "src_loop = ''def p(g):\<newline>    while True: pass''"

definition src_exit :: string where
  "src_exit = ''def p(g):\<newline>    raise SystemExit('bye')''"

definition src_unbalanced :: string where
  "src_unbalanced = ''def p(g:\<newline>    return invalid''"

text \<open>A source of 10018 characters that parses: the identity and a long comment.\<close>

definition src_long :: string where
  "src_long = src_return_g @ [CHR 0x0A] @ replicate 10000 (CHR ''#'')"

definition demo_parse :: "string \<Rightarrow> parse_result" where
  "demo_parse code = (if code = src_unbalanced then ParseSyntaxError else ParseOk)"

definition demo_exec :: "string \<Rightarrow> unit load_result" where
  "demo_exec code =
     (if code = src_reverse then Callable reverse_rows ()
      else if code = src_return_g \<or> code = src_long then Callable return_g ()
      else if code = src_raise then Callable raise_boom ()
      else NoP)"

definition loop_exec :: "string \<Rightarrow> unit load_result" where
  "loop_exec code = (if code = src_loop then Callable loop_forever () else demo_exec code)"

definition exit_exec :: "string \<Rightarrow> unit load_result" where
  "exit_exec code = (if code = src_exit then Callable exit_now () else demo_exec code)"

definition demo_dumps :: "example list \<Rightarrow> string" where
  "demo_dumps exs = (if exs = [] then ''[]'' else ''[ ... ]'')"

definition demo_env ::
    "(string \<Rightarrow> unit load_result) \<Rightarrow> (nat \<Rightarrow> string \<Rightarrow> string + string) \<Rightarrow> unit env" where
  "demo_env ex llm =
     \<lparr>ast_parse = demo_parse, exec_module = ex, json_dumps = demo_dumps,
      llm_create = llm, load_task = (\<lambda>path. Inr flip_task)\<rparr>"

text \<open>An interpreter that loads every source as the given program with its counter at 0.\<close>

definition counter_env :: "nat program \<Rightarrow> nat env" where
  "counter_env program =
     \<lparr>ast_parse = (\<lambda>code. ParseOk), exec_module = (\<lambda>code. Callable program 0),
      json_dumps = demo_dumps, llm_create = (\<lambda>i prompt. Inr []),
      load_task = (\<lambda>path. Inr two_example_task)\<rparr>"

text \<open>The defaults of \<open>run_pipeline\<close> and the state of a fresh run on an empty output
  directory.\<close>

definition default_config :: config where
  "default_config = \<lparr>max_api_calls = 100, retry_on_failure = True, max_retries = 2\<rparr>"

definition fresh_state :: run_state where
  "fresh_state =
     \<lparr>api_calls = 0, requests = [],
      counters = \<lparr>stat_success = 0, stat_syntax_error = 0, stat_validation_failed = 0,
                  stat_exception = 0, stat_skipped = 0\<rparr>,
      solutions = Map.empty, failed_files = Map.empty, progress_log = []\<rparr>"

definition copy_example :: example where
  "copy_example = [''input'' \<mapsto> grid_a, ''output'' \<mapsto> grid_a]"

definition copy_task :: task_data where
  "copy_task = [''train'' \<mapsto> [copy_example], ''test'' \<mapsto> []]"

text \<open>A generation service that answers every prompt with the same text, one that fails
  on every call, and one that fails on its first call only.\<close>

definition always_answers :: "string \<Rightarrow> nat \<Rightarrow> string \<Rightarrow> string + string" where
  "always_answers raw i prompt = Inr raw"

definition always_fails :: "nat \<Rightarrow> string \<Rightarrow> string + string" where
  "always_fails i prompt = Inl ''quota''"


text \<open>An output directory that holds a solution of task 7.\<close>

definition solved_state :: run_state where
  "solved_state = fresh_state\<lparr>solutions := [7 \<mapsto> src_return_g]\<rparr>"

section \<open>Properties of the validator\<close>



lemma score_example_Blocks:
  "(score_example program s example = Blocks) = (call_stop program s example = Some Hang)"
  by (auto simp: score_example_def call_stop_def
           split: option.splits outcome.splits prod.splits if_splits)

lemma score_example_Aborts:
  "(score_example program s example = Aborts e) = (call_stop program s example = Some (Exit e))"
  by (auto simp: score_example_def call_stop_def
           split: option.splits outcome.splits prod.splits if_splits)

lemma score_example_Done:
  "call_stop program s example = None \<Longrightarrow>
   \<exists>r. score_example program s example = Done (r, state_after program s example)"
  by (auto simp: score_example_def call_stop_def state_after_def
           split: option.splits outcome.splits prod.splits if_splits)




lemma score_examples_stop:
  "(case first_stop program s exs of
      None \<Rightarrow> \<exists>r. score_examples program s exs k = Done r
    | Some Hang \<Rightarrow> score_examples program s exs k = Blocks
    | Some (Exit e) \<Rightarrow> score_examples program s exs k = Aborts e)"
proof (induction exs arbitrary: s k)
  case Nil
  show ?case by simp
next
  case (Cons ex exs)
  show ?case
  proof (cases "call_stop program s ex")
    case None
    from score_example_Done [OF None] obtain r where
      "score_example program s ex = Done (r, state_after program s ex)" by blast
    with None Cons.IH [of "state_after program s ex" "if r = Correct then k + 1 else k"]
    show ?thesis by (auto split: option.splits stop.splits if_splits)
  next
    case (Some st)
    show ?thesis
    proof (cases st)
      case Hang
      with Some score_example_Blocks [of program s ex] show ?thesis by simp
    next
      case (Exit e)
      with Some score_example_Aborts [of program s ex e] show ?thesis by simp
    qed
  qed
qed

lemma score_examples_append:
  "score_examples program s (xs @ ys) k =
     (case score_examples program s xs k of
        Blocks \<Rightarrow> Blocks
      | Aborts e \<Rightarrow> Aborts e
      | Done (k1, s1) \<Rightarrow> score_examples program s1 ys k1)"
  by (induction xs arbitrary: s k) (auto split: result.splits prod.splits)





lemma tally_0_0: "tally_message 0 0 = ''Passed 0/0 train examples''"
  by code_simp


lemma tally_1_1: "tally_message 1 1 = ''Passed 1/1 train examples''"
  by code_simp

lemma np_grid_a: "np_array grid_a = Some ([2, 2], [0, 1, 1, 0])"
  by (simp add: grid_a_def fits_int64_def)

lemma np_grid_b: "np_array grid_b = Some ([2, 2], [1, 0, 0, 1])"
  by (simp add: grid_b_def fits_int64_def)

lemma flip_keys:
  "flip_example ''input'' = Some grid_a" "flip_example ''output'' = Some grid_b"
  by (simp_all add: flip_example_def)

lemma reverse_a: "reverse_rows s grid_a = (Returns grid_b, s)"
  by (simp add: reverse_rows_def grid_a_def grid_b_def)

lemma train_flip: "get_train flip_task = [flip_example]"
  by (simp add: get_train_def flip_task_def)

lemma train_two: "get_train two_example_task = [flip_example, flip_example]"
  by (simp add: get_train_def two_example_task_def)

lemma train_none: "get_train no_train_task = []"
  by (simp add: get_train_def no_train_task_def)

lemma exec_reverse: "demo_exec src_reverse = Callable reverse_rows ()"
  by (simp add: demo_exec_def)


lemma exec_loop: "loop_exec src_loop = Callable loop_forever ()"
  by (simp add: loop_exec_def)

lemma exec_exit: "exit_exec src_exit = Callable exit_now ()"
  by (simp add: exit_exec_def)

lemma score_flip_reverse: "score_example reverse_rows () flip_example = Done (Correct, ())"
  by (simp add: score_example_def flip_keys reverse_a np_grid_b array_equal_def)




text \<open>
  Claim C10. With an empty list of training examples (the key \<open>train\<close> absent or an empty
  list), a source whose module loads with a callable \<open>p\<close> is accepted with the message
  \<open>Passed 0/0 train examples\<close>, whatever \<open>p\<close> computes.
\<close>

theorem empty_train_accepted:
  assumes "exec_module env code = Callable program s0"
    and "get_train task_data = []"
  shows "passes_training_examples env task_data code = Done (True, ''Passed 0/0 train examples'')"
  using assms by (simp add: passes_training_examples_def tally_0_0)

theorem empty_train_accepted_witness:
  "exec_module (demo_env loop_exec (\<lambda>i prompt. Inr [])) src_loop = Callable loop_forever () \<and>
   get_train no_train_task = [] \<and>
   passes_training_examples (demo_env loop_exec (\<lambda>i prompt. Inr [])) no_train_task src_loop =
     Done (True, ''Passed 0/0 train examples'')"
proof -
  have e: "exec_module (demo_env loop_exec (\<lambda>i prompt. Inr [])) src_loop = Callable loop_forever ()"
    by (simp add: demo_env_def exec_loop)
  from empty_train_accepted [OF e train_none] e train_none show ?thesis by simp
qed

lemma raise_once_first: "raise_once 0 g = (Raises ''first call'', Suc 0)"
  by (simp add: raise_once_def)

lemma raise_once_second: "raise_once (Suc 0) grid_a = (Returns grid_b, Suc (Suc 0))"
  by (simp add: raise_once_def grid_a_def grid_b_def)

lemma score_raise_once_second:
  "score_examples raise_once (Suc 0) [flip_example] 0 = Done (1, Suc (Suc 0))"
  by (simp add: score_example_def flip_keys raise_once_second np_grid_b array_equal_def)

lemma exit_once_first: "exit_once 0 g = (Exits ''bye'', Suc 0)"
  by (simp add: exit_once_def)

lemma score_raise_once:
  "score_examples raise_once 0 [flip_example, flip_example] 0 = Done (1, Suc (Suc 0))"
  by (simp add: score_example_def flip_keys raise_once_first raise_once_second np_grid_b
        array_equal_def)

lemma score_exit_once:
  "score_examples exit_once 0 [flip_example, flip_example] 0 = Aborts ''bye''"
  by (simp add: score_example_def flip_keys exit_once_first)

text \<open>
  Claim C8, as stated, fails. The candidate \<open>exit_once\<close> raises \<open>SystemExit\<close> on its first
  call and would reverse the rows on its second. On two copies of the example whose
  expected output is the reversed input, the exception is not caught, it leaves the
  validator, and the second example is not scored. The candidate \<open>raise_once\<close>, which
  differs only in raising an \<open>Exception\<close>, gets the tally 1 of 2.
\<close>

theorem exit_stops_scoring_counterexample:
  "exit_once 0 grid_a = (Exits ''bye'', Suc 0) \<and>
   passes_training_examples (counter_env exit_once) two_example_task [] = Aborts ''bye'' \<and>
   passes_training_examples (counter_env raise_once) two_example_task [] =
     Done (False, ''Passed 1/2 train examples'')"
proof -
  have "tally_message (Suc 0) (Suc (Suc 0)) = ''Passed 1/2 train examples''" by code_simp
  then show ?thesis
    by (simp add: exit_once_first passes_training_examples_def counter_env_def train_two
          score_exit_once score_raise_once del: score_examples.simps)
qed

text \<open>
  Claim C8, amended. An exception that \<open>except Exception\<close> catches, raised while a
  training example is scored at whatever place in the sequence (by reading a missing key,
  by the call, or by a returned value that \<open>np.array\<close> rejects), does not stop the scoring:
  the examples behind it are scored as they would be from the state the call left, with the
  tally the examples before it reached, as after an example whose call returns a value
  that does not match. An exception outside \<open>Exception\<close> raised by the call is not caught:
  it leaves the validator and no later example is scored.
\<close>

theorem caught_exception_does_not_stop_scoring:
  assumes "score_examples program s before k = Done (k1, s1)"
  shows "(example ''input'' = None \<or> example ''output'' = None \<longrightarrow>
            score_examples program s (before @ example # rest) k =
            score_examples program s1 rest k1) \<and>
         (example ''input'' = Some input_grid \<and> example ''output'' = Some expected \<and>
          program s1 input_grid = (Raises e, s2) \<longrightarrow>
            score_examples program s (before @ example # rest) k =
            score_examples program s2 rest k1) \<and>
         (example ''input'' = Some input_grid \<and> example ''output'' = Some expected \<and>
          program s1 input_grid = (Returns result, s2) \<and>
          (np_array result = None \<or> np_array result \<noteq> np_array expected) \<longrightarrow>
            score_examples program s (before @ example # rest) k =
            score_examples program s2 rest k1) \<and>
         (example ''input'' = Some input_grid \<and> example ''output'' = Some expected \<and>
          program s1 input_grid = (Exits e, s2) \<longrightarrow>
            score_examples program s (before @ example # rest) k = Aborts e)"
  using assms
  by (auto simp: score_examples_append score_example_def array_equal_def
           split: option.splits)

theorem caught_exception_does_not_stop_scoring_witness:
  "score_examples reverse_rows () [] 0 = Done (0, ()) \<and> no_keys_example ''input'' = None \<and>
   score_examples reverse_rows () ([] @ no_keys_example # [flip_example]) 0 = Done (1, ()) \<and>
   score_examples raise_once 0 [] 0 = Done (0, 0) \<and>
   flip_example ''input'' = Some grid_a \<and> flip_example ''output'' = Some grid_b \<and>
   raise_once 0 grid_a = (Raises ''first call'', Suc 0) \<and>
   score_examples raise_once 0 ([] @ flip_example # [flip_example]) 0 = Done (1, Suc (Suc 0)) \<and>
   return_g () grid_a = (Returns grid_a, ()) \<and> np_array grid_a \<noteq> np_array grid_b \<and>
   score_examples return_g () ([] @ flip_example # []) 0 = Done (0, ()) \<and>
   exit_once 0 grid_a = (Exits ''bye'', Suc 0) \<and>
   score_examples exit_once 0 ([] @ flip_example # [flip_example]) 0 = Aborts ''bye''"
proof -
  have b0: "score_examples reverse_rows () [] 0 = Done (0, ())" by simp
  have nk: "no_keys_example ''input'' = None" by (simp add: no_keys_example_def)
  from caught_exception_does_not_stop_scoring [OF b0, of no_keys_example "[flip_example]"] nk
  have "score_examples reverse_rows () ([] @ no_keys_example # [flip_example]) 0 =
        score_examples reverse_rows () [flip_example] 0"
    by blast
  then have missing: "score_examples reverse_rows () ([] @ no_keys_example # [flip_example]) 0 =
      Done (1, ())"
    by (simp add: score_flip_reverse)
  have b: "score_examples raise_once 0 [] 0 = Done (0, 0)" by simp
  from caught_exception_does_not_stop_scoring [OF b, where example = flip_example
      and input_grid = grid_a and expected = grid_b and e = "''first call''"
      and ?s2.0 = "Suc 0" and rest = "[flip_example]"]
  have "score_examples raise_once 0 ([] @ flip_example # [flip_example]) 0 =
        score_examples raise_once (Suc 0) [flip_example] 0"
    using raise_once_first [of grid_a] flip_keys by blast
  with score_raise_once_second
  have raised: "score_examples raise_once 0 ([] @ flip_example # [flip_example]) 0 =
      Done (1, Suc (Suc 0))"
    by simp
  have b2: "score_examples return_g () [] 0 = Done (0, ())" by simp
  have r: "return_g () grid_a = (Returns grid_a, ())" by (simp add: return_g_def)
  have d: "np_array grid_a \<noteq> np_array grid_b" by (simp add: np_grid_a np_grid_b)
  from caught_exception_does_not_stop_scoring [OF b2, where example = flip_example
      and input_grid = grid_a and expected = grid_b and result = grid_a and ?s2.0 = "()"
      and rest = "[]"] r d flip_keys
  have "score_examples return_g () ([] @ flip_example # []) 0 =
        score_examples return_g () [] 0"
    by blast
  with b2 have mismatch: "score_examples return_g () ([] @ flip_example # []) 0 = Done (0, ())"
    by simp
  have b3: "score_examples exit_once 0 [] 0 = Done (0, 0)" by simp
  from caught_exception_does_not_stop_scoring [OF b3, where example = flip_example
      and input_grid = grid_a and expected = grid_b and e = "''bye''" and ?s2.0 = "Suc 0"
      and rest = "[flip_example]"] exit_once_first [of grid_a] flip_keys
  have exits: "score_examples exit_once 0 ([] @ flip_example # [flip_example]) 0 =
      Aborts ''bye''"
    by blast
  from b0 nk missing b flip_keys raise_once_first [of grid_a] raised r d mismatch
    exit_once_first [of grid_a] exits
  show ?thesis by simp
qed








lemma loop_a: "loop_forever () grid_a = (Hangs, ())"
  by (simp add: loop_forever_def)

lemma exit_a: "exit_now () grid_a = (Exits ''bye'', ())"
  by (simp add: exit_now_def)

lemma stop_flip_reverse: "first_stop reverse_rows () (get_train flip_task) = None"
  by (simp add: train_flip call_stop_def flip_keys reverse_a)

lemma stop_flip_loop: "first_stop loop_forever () (get_train flip_task) = Some Hang"
  by (simp add: train_flip call_stop_def flip_keys loop_a)

lemma stop_flip_exit: "first_stop exit_now () (get_train flip_task) = Some (Exit ''bye'')"
  by (simp add: train_flip call_stop_def flip_keys exit_a)

text \<open>
  Claim C5, as stated, fails: the candidate \<open>loop_forever\<close> never returns from its call on
  the only training example, and the validator never returns a verdict.
\<close>

theorem no_timeout_counterexample:
  "loop_forever () grid_a = (Hangs, ()) \<and>
   passes_training_examples (demo_env loop_exec (\<lambda>i prompt. Inr [])) flip_task src_loop = Blocks"
  by (simp add: loop_a passes_training_examples_def demo_env_def exec_loop train_flip
        score_example_def flip_keys)

text \<open>
  Claim C5, amended. The validator calls the entry point directly, with no timeout. For a
  callable candidate it returns a verdict exactly when no call on a training example, in
  the sequence of the calls, runs forever or raises an exception outside \<open>Exception\<close>
  (\<open>SystemExit\<close>, \<open>KeyboardInterrupt\<close>). When the first call that does not come back runs
  forever, the validator blocks: the call is not scored as a failure of its example. When
  it raises such an exception, the exception leaves the validator. A call that raises an
  \<open>Exception\<close> comes back to the handler and does not keep the verdict from being returned.
\<close>

theorem validator_result_by_first_stop:
  assumes "exec_module env code = Callable program s0"
  shows "((\<exists>verdict. passes_training_examples env task_data code = Done verdict) =
            (first_stop program s0 (get_train task_data) = None)) \<and>
         ((passes_training_examples env task_data code = Blocks) =
            (first_stop program s0 (get_train task_data) = Some Hang)) \<and>
         ((passes_training_examples env task_data code = Aborts e) =
            (first_stop program s0 (get_train task_data) = Some (Exit e)))"
proof (cases "first_stop program s0 (get_train task_data)")
  case None
  with score_examples_stop [of program s0 "get_train task_data" 0] obtain r where
    "score_examples program s0 (get_train task_data) 0 = Done r" by auto
  with None assms show ?thesis
    by (cases r) (simp add: passes_training_examples_def Let_def)
next
  case (Some st)
  show ?thesis
  proof (cases st)
    case Hang
    with Some score_examples_stop [of program s0 "get_train task_data" 0]
    have "score_examples program s0 (get_train task_data) 0 = Blocks" by simp
    with Some Hang assms show ?thesis
      by (simp add: passes_training_examples_def Let_def)
  next
    case (Exit e')
    with Some score_examples_stop [of program s0 "get_train task_data" 0]
    have "score_examples program s0 (get_train task_data) 0 = Aborts e'" by simp
    with Some Exit assms show ?thesis
      by (auto simp: passes_training_examples_def Let_def)
  qed
qed

theorem validator_result_by_first_stop_witness:
  "exec_module (demo_env demo_exec (\<lambda>i prompt. Inr [])) src_reverse = Callable reverse_rows () \<and>
   first_stop reverse_rows () (get_train flip_task) = None \<and>
   (\<exists>verdict. passes_training_examples (demo_env demo_exec (\<lambda>i prompt. Inr [])) flip_task
      src_reverse = Done verdict) \<and>
   exec_module (demo_env exit_exec (\<lambda>i prompt. Inr [])) src_exit = Callable exit_now () \<and>
   first_stop exit_now () (get_train flip_task) = Some (Exit ''bye'') \<and>
   passes_training_examples (demo_env exit_exec (\<lambda>i prompt. Inr [])) flip_task src_exit =
     Aborts ''bye'' \<and>
   exec_module (demo_env loop_exec (\<lambda>i prompt. Inr [])) src_loop = Callable loop_forever () \<and>
   first_stop loop_forever () (get_train flip_task) = Some Hang \<and>
   passes_training_examples (demo_env loop_exec (\<lambda>i prompt. Inr [])) flip_task src_loop = Blocks"
proof -
  have e: "exec_module (demo_env demo_exec (\<lambda>i prompt. Inr [])) src_reverse = Callable reverse_rows ()"
    by (simp add: demo_env_def exec_reverse)
  have x: "exec_module (demo_env exit_exec (\<lambda>i prompt. Inr [])) src_exit = Callable exit_now ()"
    by (simp add: demo_env_def exec_exit)
  have l: "exec_module (demo_env loop_exec (\<lambda>i prompt. Inr [])) src_loop = Callable loop_forever ()"
    by (simp add: demo_env_def exec_loop)
  from validator_result_by_first_stop [OF e, of flip_task] stop_flip_reverse
  have 1: "\<exists>verdict. passes_training_examples (demo_env demo_exec (\<lambda>i prompt. Inr [])) flip_task
      src_reverse = Done verdict"
    by blast
  from validator_result_by_first_stop [OF x, of flip_task "''bye''"] stop_flip_exit
  have 2: "passes_training_examples (demo_env exit_exec (\<lambda>i prompt. Inr [])) flip_task src_exit =
     Aborts ''bye''"
    by blast
  from validator_result_by_first_stop [OF l, of flip_task] stop_flip_loop
  have 3: "passes_training_examples (demo_env loop_exec (\<lambda>i prompt. Inr [])) flip_task src_loop =
     Blocks"
    by blast
  from e stop_flip_reverse 1 x stop_flip_exit 2 l stop_flip_loop 3 show ?thesis by blast
qed

section \<open>Properties of the extraction\<close>

lemma strip_unchanged:
  assumes "s \<noteq> []" and "\<not> py_isspace (hd s)" and "\<not> py_isspace (last s)"
  shows "strip s = s"
proof -
  from assms(1,2) have front: "dropWhile py_isspace s = s"
    by (cases s) simp_all
  from assms(1,3) have "dropWhile py_isspace (rev s) = rev s"
    by (cases "rev s") (simp_all add: last_rev [symmetric] hd_rev)
  with front show ?thesis by (simp add: strip_def)
qed

lemma strip_Nil: "strip [] = []"
  by (simp add: strip_def)

lemma strip_ends:
  assumes "strip s \<noteq> []"
  shows "\<not> py_isspace (hd (strip s)) \<and> \<not> py_isspace (last (strip s))"
proof -
  let ?t = "dropWhile py_isspace s"
  let ?u = "dropWhile py_isspace (rev ?t)"
  from assms have u: "?u \<noteq> []" by (simp add: strip_def)
  have t: "?t \<noteq> []"
  proof
    assume "?t = []"
    then have "?u = []" by (simp only: rev.simps dropWhile.simps)
    with u show False by blast
  qed
  have last_u: "\<not> py_isspace (hd ?u)" using u by (rule hd_dropWhile)
  have "rev ?t = takeWhile py_isspace (rev ?t) @ ?u" by simp
  then have "?t = rev ?u @ rev (takeWhile py_isspace (rev ?t))"
    by (metis rev_append rev_rev_ident)
  with u have "hd ?t = hd (rev ?u)" by (metis hd_append2 rev_is_Nil_conv)
  moreover have "\<not> py_isspace (hd ?t)" using t by (rule hd_dropWhile)
  ultimately have "\<not> py_isspace (hd (rev ?u))" by simp
  moreover from last_u u have "\<not> py_isspace (last (rev ?u))" by (simp add: last_rev)
  ultimately show ?thesis by (simp add: strip_def)
qed

lemma strip_idem: "strip (strip s) = strip s"
proof (cases "strip s = []")
  case True
  then show ?thesis by (simp add: strip_Nil)
next
  case False
  with strip_ends [OF False] show ?thesis by (simp add: strip_unchanged)
qed

lemma split_at_first_Some:
  "split_at_first pat s = Some (before, after) \<Longrightarrow> s = before @ pat @ after"
proof (induction s arbitrary: before)
  case Nil
  then show ?case by (simp split: if_splits)
next
  case (Cons c cs)
  show ?case
  proof (cases "take (length pat) (c # cs) = pat")
    case True
    with Cons.prems have "before = []" "after = drop (length pat) (c # cs)" by simp_all
    with True show ?thesis by (metis append_Nil append_take_drop_id)
  next
    case False
    with Cons.prems obtain b where "split_at_first pat cs = Some (b, after)" "before = c # b"
      by auto
    with Cons.IH show ?thesis by simp
  qed
qed

lemma no_backquote_no_fence:
  assumes "CHR 0x60 \<notin> set raw"
  shows "findall_first ''```python'' raw = None" and "findall_first ''```'' raw = None"
proof -
  have "split_at_first ''```python'' raw = None"
  proof (cases "split_at_first ''```python'' raw")
    case (Some a)
    then obtain b c where "raw = b @ ''```python'' @ c"
      using split_at_first_Some [of "''```python''" raw] by (cases a) auto
    with assms show ?thesis by simp
  qed simp
  then show "findall_first ''```python'' raw = None" by (simp add: findall_first_def)
  have "split_at_first ''```'' raw = None"
  proof (cases "split_at_first ''```'' raw")
    case (Some a)
    then obtain b c where "raw = b @ ''```'' @ c"
      using split_at_first_Some [of "''```''" raw] by (cases a) auto
    with assms show ?thesis by simp
  qed simp
  then show "findall_first ''```'' raw = None" by (simp add: findall_first_def)
qed

lemma extract_code_tagged_block:
  "findall_first ''```python'' raw = Some m \<Longrightarrow> extract_code raw = strip m"
  by (simp add: extract_code_def strip_idem Let_def)

lemma extract_code_generic_block:
  "findall_first ''```python'' raw = None \<Longrightarrow> findall_first ''```'' raw = Some m \<Longrightarrow>
   extract_code raw = strip (sub_python True (strip m))"
  by (simp add: extract_code_def strip_idem Let_def)

lemma extract_code_fallback:
  "findall_first ''```python'' raw = None \<Longrightarrow> findall_first ''```'' raw = None \<Longrightarrow>
   extract_code raw = strip raw"
  by (simp add: extract_code_def strip_idem Let_def)

lemma extract_code_no_fence:
  "CHR 0x60 \<notin> set raw \<Longrightarrow> extract_code raw = strip raw"
  by (simp add: extract_code_def no_backquote_no_fence strip_idem Let_def)

lemma extract_src_long: "extract_code src_long = src_long"
proof -
  have "CHR 0x60 \<notin> set src_long"
    by (simp add: src_long_def src_return_g_def)
  then have "extract_code src_long = strip src_long" by (rule extract_code_no_fence)
  also have "strip src_long = src_long"
    by (rule strip_unchanged) (simp_all add: src_long_def src_return_g_def py_isspace_def)
  finally show ?thesis .
qed

lemma length_src_long: "length src_long = 10018"
  by (simp add: src_long_def src_return_g_def)

text \<open>
  Claim C6 on the input of a generic fenced block whose third line starts with the word
  \<open>python\<close>: the extraction removes the word from that line, which is not the block's
  leading language tag.
\<close>

theorem extract_generic_block_damages_line:
  "extract_code ''```\<newline>def p(g):\<newline>    return g\<newline>python_golf = p\<newline>```'' =
     ''def p(g):\<newline>    return g\<newline>_golf = p''"
  by code_simp

section \<open>Properties of the attempt loop\<close>

lemma attempt_body_generation_fails:
  assumes "llm_create env (length (requests (run v)))
             (attempt_prompt env task_id train_examples test_examples attempt v) = Inl e"
  shows "attempt_body env cfg task_id task_data train_examples test_examples attempt v =
     Done (retry_or_break cfg attempt,
           v\<lparr>previous_error := Some (''Exception: '' @ e),
             run := log_progress task_id ''exception'' 0 False e
                      (bump_exception ((run v)\<lparr>requests := requests (run v) @
                         [attempt_prompt env task_id train_examples test_examples attempt v]\<rparr>))\<rparr>)"
  using assms by (simp add: attempt_body_def generate_def on_exception_def Let_def)


lemma attempt_body_syntax_error:
  assumes "llm_create env (length (requests (run v)))
             (attempt_prompt env task_id train_examples test_examples attempt v) = Inr raw"
    and "ast_parse env (extract_code raw) = ParseSyntaxError"
  shows "attempt_body env cfg task_id task_data train_examples test_examples attempt v =
     Done (retry_or_break cfg attempt,
           v\<lparr>previous_code := Some (extract_code raw),
             previous_error := Some ''Syntax error: Code has invalid Python syntax'',
             run := log_progress task_id ''syntax_error'' (length (extract_code raw)) False []
                      (bump_syntax_error ((run v)\<lparr>requests := requests (run v) @
                         [attempt_prompt env task_id train_examples test_examples attempt v],
                         api_calls := api_calls (run v) + 1\<rparr>))\<rparr>)"
  using assms by (simp add: attempt_body_def generate_def is_syntax_valid_def Let_def)

lemma attempt_body_accepted:
  assumes "llm_create env (length (requests (run v)))
             (attempt_prompt env task_id train_examples test_examples attempt v) = Inr raw"
    and "ast_parse env (extract_code raw) = ParseOk"
    and "passes_training_examples env task_data (extract_code raw) = Done (True, message)"
  shows "attempt_body env cfg task_id task_data train_examples test_examples attempt v =
     Done (Break,
           v\<lparr>success := True,
             run := bump_success
               (log_progress task_id ''validated_success'' (length (extract_code raw)) True
                  (success_details (api_calls (run v) + 1) attempt)
                  (save_code task_id (extract_code raw)
                     ((run v)\<lparr>requests := requests (run v) @
                        [attempt_prompt env task_id train_examples test_examples attempt v],
                        api_calls := api_calls (run v) + 1\<rparr>)))\<rparr>)"
  using assms by (simp add: attempt_body_def generate_def is_syntax_valid_def Let_def)

lemma attempt_body_rejected:
  assumes "llm_create env (length (requests (run v)))
             (attempt_prompt env task_id train_examples test_examples attempt v) = Inr raw"
    and "ast_parse env (extract_code raw) = ParseOk"
    and "passes_training_examples env task_data (extract_code raw) = Done (False, message)"
  shows "attempt_body env cfg task_id task_data train_examples test_examples attempt v =
     Done (retry_or_break cfg attempt,
           v\<lparr>previous_code := Some (extract_code raw),
             previous_error := Some message,
             run := log_progress task_id ''failed_validation'' (length (extract_code raw))
                      False message
                      ((bump_validation_failed ((run v)\<lparr>requests := requests (run v) @
                          [attempt_prompt env task_id train_examples test_examples attempt v],
                          api_calls := api_calls (run v) + 1\<rparr>))
                         \<lparr>failed_files := (failed_files (run v))
                            ((task_id, attempt + 1) \<mapsto> extract_code raw)\<rparr>)\<rparr>)"
  using assms by (simp add: attempt_body_def generate_def is_syntax_valid_def Let_def)

lemma attempt_body_blocks:
  assumes "llm_create env (length (requests (run v)))
             (attempt_prompt env task_id train_examples test_examples attempt v) = Inr raw"
    and "ast_parse env (extract_code raw) = ParseOk"
    and "passes_training_examples env task_data (extract_code raw) = Blocks"
  shows "attempt_body env cfg task_id task_data train_examples test_examples attempt v = Blocks"
  using assms by (simp add: attempt_body_def generate_def is_syntax_valid_def Let_def)

lemma attempt_body_aborts:
  assumes "llm_create env (length (requests (run v)))
             (attempt_prompt env task_id train_examples test_examples attempt v) = Inr raw"
    and "ast_parse env (extract_code raw) = ParseOk"
    and "passes_training_examples env task_data (extract_code raw) = Aborts e"
  shows "attempt_body env cfg task_id task_data train_examples test_examples attempt v =
           Aborts e"
  using assms by (simp add: attempt_body_def generate_def is_syntax_valid_def Let_def)







lemma attempts_default: "attempts_range default_config = [0, 1, 2]"
  by (simp add: attempts_range_def default_config_def upt_rec)
















section \<open>Properties of the runner\<close>

lemma task_num_007: "get_task_num_from_path ''data/task007.json'' = Some 7"
  by code_simp

lemma solved_state_7: "file_exists solved_state 7"
  by (simp add: file_exists_def solved_state_def)

text \<open>
  Claim C9. A task whose path gives a task number with a solution in the output directory
  is skipped: processing it makes no generation call (the prompts handed to \<open>generate\<close> and
  the call counter are unchanged), adds one to the counter of skipped tasks, and leaves the
  solutions and the log as they are. Below the budget, the loop over the tasks goes on with
  the next path from that state.
\<close>

theorem existing_solution_is_skipped:
  assumes "get_task_num_from_path task_path = Some task_id"
    and "file_exists st task_id"
  shows "(\<exists>st'. process_task env cfg task_path st = Done st' \<and>
            requests st' = requests st \<and> api_calls st' = api_calls st \<and>
            stat_skipped (counters st') = stat_skipped (counters st) + 1 \<and>
            solutions st' = solutions st \<and> progress_log st' = progress_log st \<and>
            (int (api_calls st) < max_api_calls cfg \<longrightarrow>
               run_tasks env cfg (task_path # rest) st = run_tasks env cfg rest st'))"
  using assms by (simp add: process_task_def bump_skipped_def)

theorem existing_solution_is_skipped_witness:
  "get_task_num_from_path ''data/task007.json'' = Some 7 \<and> file_exists solved_state 7 \<and>
   int (api_calls solved_state) < max_api_calls default_config \<and>
   (\<exists>st'. process_task (demo_env demo_exec always_fails) default_config
             ''data/task007.json'' solved_state = Done st' \<and>
          requests st' = requests solved_state \<and> api_calls st' = api_calls solved_state \<and>
          stat_skipped (counters st') = stat_skipped (counters solved_state) + 1 \<and>
          solutions st' = solutions solved_state \<and>
          progress_log st' = progress_log solved_state \<and>
          run_tasks (demo_env demo_exec always_fails) default_config
            [''data/task007.json''] solved_state = Done st')"
proof -
  have budget: "int (api_calls solved_state) < max_api_calls default_config"
    by (simp add: solved_state_def fresh_state_def default_config_def)
  from existing_solution_is_skipped [OF task_num_007 solved_state_7,
      of "demo_env demo_exec always_fails" default_config "[]"] budget
  have "\<exists>st'. process_task (demo_env demo_exec always_fails) default_config
             ''data/task007.json'' solved_state = Done st' \<and>
          requests st' = requests solved_state \<and> api_calls st' = api_calls solved_state \<and>
          stat_skipped (counters st') = stat_skipped (counters solved_state) + 1 \<and>
          solutions st' = solutions solved_state \<and>
          progress_log st' = progress_log solved_state \<and>
          run_tasks (demo_env demo_exec always_fails) default_config
            [''data/task007.json''] solved_state = Done st'"
    by auto
  with task_num_007 solved_state_7 budget show ?thesis by blast
qed

lemma copy_keys:
  "copy_example ''input'' = Some grid_a" "copy_example ''output'' = Some grid_a"
  by (simp_all add: copy_example_def)

lemma train_copy: "get_train copy_task = [copy_example]"
  by (simp add: get_train_def copy_task_def)

lemma exec_long: "demo_exec src_long = Callable return_g ()"
  by (simp add: demo_exec_def src_long_def src_return_g_def src_reverse_def)

lemma parse_long: "demo_parse src_long = ParseOk"
  by (simp add: demo_parse_def src_long_def src_return_g_def src_unbalanced_def)

lemma passes_long:
  "passes_training_examples (demo_env demo_exec llm) copy_task src_long =
     Done (True, ''Passed 1/1 train examples'')"
  by (simp add: passes_training_examples_def demo_env_def exec_long train_copy
        score_example_def copy_keys return_g_def np_grid_a array_equal_def
        tally_1_1 [simplified])

lemma accepted_long:
  "attempt_body (demo_env demo_exec (always_answers src_long)) default_config 1 copy_task
     [copy_example] [] 0 (initial_vars fresh_state) =
   Done (Break,
     (initial_vars fresh_state)\<lparr>success := True,
        run := bump_success
          (log_progress 1 ''validated_success'' (length src_long) True
             (success_details (api_calls (run (initial_vars fresh_state)) + 1) 0)
             (save_code 1 src_long
                ((run (initial_vars fresh_state))\<lparr>requests :=
                   requests (run (initial_vars fresh_state)) @
                   [attempt_prompt (demo_env demo_exec (always_answers src_long)) 1
                      [copy_example] [] 0 (initial_vars fresh_state)],
                   api_calls := api_calls (run (initial_vars fresh_state)) + 1\<rparr>)))\<rparr>)"
proof -
  let ?env = "demo_env demo_exec (always_answers src_long)"
  have g: "llm_create ?env (length (requests (run (initial_vars fresh_state))))
             (attempt_prompt ?env 1 [copy_example] [] 0 (initial_vars fresh_state)) = Inr src_long"
    by (simp add: demo_env_def always_answers_def)
  have p: "ast_parse ?env (extract_code src_long) = ParseOk"
    by (simp add: extract_src_long demo_env_def parse_long)
  have v: "passes_training_examples ?env copy_task (extract_code src_long) =
             Done (True, ''Passed 1/1 train examples'')"
    by (simp add: extract_src_long passes_long)
  from attempt_body_accepted [OF g p v, of default_config] show ?thesis
    by (simp only: extract_src_long)
qed

text \<open>
  Claim C3, as stated, fails: the source \<open>src_long\<close> has 10018 characters, more than the
  maximum of 10000 that \<open>validate_code_length\<close> allows, and the attempt that extracts it
  accepts it and saves it as the solution of the task.
\<close>

theorem overlong_source_counterexample:
  "length src_long = 10018 \<and> \<not> validate_code_length src_long 10000 \<and>
   map_result (\<lambda>(c, v'). (c, success v', solutions (run v') 1))
     (attempt_body (demo_env demo_exec (always_answers src_long)) default_config 1 copy_task
        [copy_example] [] 0 (initial_vars fresh_state)) =
   Done (Break, True, Some src_long)"
  unfolding accepted_long
  by (simp add: length_src_long validate_code_length_def bump_success_def
        log_progress_def save_code_def)

text \<open>
  Claim C3, amended. \<open>validate_code_length\<close> is false exactly for a source longer than the
  maximum, whether the source parses or not, but the attempts of \<open>run_pipeline\<close> do not call
  it: a source of any length that parses and passes the training examples is accepted and
  saved as the solution.
\<close>

theorem length_check_not_applied:
  assumes "llm_create env (length (requests (run v)))
             (attempt_prompt env task_id train_examples test_examples attempt v) = Inr raw"
    and "ast_parse env (extract_code raw) = ParseOk"
    and "passes_training_examples env task_data (extract_code raw) = Done (True, message)"
  shows "validate_code_length (extract_code raw) max_length =
           (length (extract_code raw) \<le> max_length) \<and>
         (\<exists>v'. attempt_body env cfg task_id task_data train_examples test_examples attempt v =
                  Done (Break, v') \<and>
               success v' \<and> solutions (run v') task_id = Some (extract_code raw))"
  using attempt_body_accepted [OF assms, of cfg]
  by (simp add: validate_code_length_def bump_success_def log_progress_def save_code_def)

theorem length_check_not_applied_witness:
  "validate_code_length (extract_code src_long) 10000 = (length (extract_code src_long) \<le> 10000) \<and>
   (\<exists>v'. attempt_body (demo_env demo_exec (always_answers src_long)) default_config 1 copy_task
            [copy_example] [] 0 (initial_vars fresh_state) = Done (Break, v') \<and>
          success v' \<and> solutions (run v') 1 = Some (extract_code src_long))"
proof -
  let ?env = "demo_env demo_exec (always_answers src_long)"
  have g: "llm_create ?env (length (requests (run (initial_vars fresh_state))))
             (attempt_prompt ?env 1 [copy_example] [] 0 (initial_vars fresh_state)) = Inr src_long"
    by (simp add: demo_env_def always_answers_def)
  have p: "ast_parse ?env (extract_code src_long) = ParseOk"
    by (simp add: extract_src_long demo_env_def parse_long)
  have v: "passes_training_examples ?env copy_task (extract_code src_long) =
             Done (True, ''Passed 1/1 train examples'')"
    by (simp add: extract_src_long passes_long)
  from length_check_not_applied [OF g p v, of 10000 default_config] show ?thesis .
qed

lemma append_prefix_differs:
  "p @ xs = q @ ys \<Longrightarrow> n \<le> length p \<Longrightarrow> n \<le> length q \<Longrightarrow> take n p = take n q"
proof -
  assume eq: "p @ xs = q @ ys" and p: "n \<le> length p" and q: "n \<le> length q"
  from eq have "take n (p @ xs) = take n (q @ ys)" by (rule arg_cong)
  with p q show ?thesis by simp
qed

lemma initial_not_refinement:
  "INITIAL_PROMPT_TEMPLATE a b \<noteq> REFINEMENT_PROMPT_TEMPLATE c d e f"
proof
  assume "INITIAL_PROMPT_TEMPLATE a b = REFINEMENT_PROMPT_TEMPLATE c d e f"
  then have "take 75 ''You are an expert at solving abstract reasoning challenges (ARC tasks) using pattern recognition.\<newline>'' =
    take 75 ''You are an expert at solving abstract reasoning challenges (ARC tasks). Your previous solution FAILED validation.\<newline>''"
    unfolding INITIAL_PROMPT_TEMPLATE_def REFINEMENT_PROMPT_TEMPLATE_def
    by (rule append_prefix_differs) simp_all
  then show False by simp
qed

lemma retry_default:
  "retry_or_break default_config 0 = Continue"
  "retry_or_break default_config (Suc 0) = Continue"
  "retry_or_break default_config 2 = Break"
  by (simp_all add: retry_or_break_def default_config_def)

lemma prompt_without_candidate:
  "previous_code v = None \<or> previous_code v = Some [] \<Longrightarrow>
   attempt_prompt (demo_env ex llm) task_id [flip_example] [] attempt v =
     INITIAL_PROMPT_TEMPLATE ''[ ... ]'' ''[]''"
  by (auto simp: attempt_prompt_def build_prompt_def demo_env_def demo_dumps_def Let_def
           split: option.splits)

lemma fails_step:
  "attempt_body (demo_env demo_exec always_fails) cfg task_id task_data train_examples
     test_examples attempt v =
   Done (retry_or_break cfg attempt,
         v\<lparr>previous_error := Some ''Exception: quota'',
           run := log_progress task_id ''exception'' 0 False ''quota''
                    (bump_exception ((run v)\<lparr>requests := requests (run v) @
                       [attempt_prompt (demo_env demo_exec always_fails) task_id train_examples
                          test_examples attempt v]\<rparr>))\<rparr>)"
proof -
  have "llm_create (demo_env demo_exec always_fails) (length (requests (run v)))
          (attempt_prompt (demo_env demo_exec always_fails) task_id train_examples
             test_examples attempt v) = Inl ''quota''"
    by (simp add: demo_env_def always_fails_def)
  from attempt_body_generation_fails [OF this] show ?thesis by simp
qed

lemma extract_empty: "extract_code [] = []"
  by code_simp

lemma passes_empty:
  "passes_training_examples (demo_env demo_exec llm) task_data [] =
     Done (False, ''Function p() not found'')"
  by (simp add: passes_training_examples_def demo_env_def demo_exec_def src_reverse_def
        src_return_g_def src_long_def src_raise_def)

lemma empty_step:
  "attempt_body (demo_env demo_exec (always_answers [])) cfg task_id task_data train_examples
     test_examples attempt v =
   Done (retry_or_break cfg attempt,
         v\<lparr>previous_code := Some [],
           previous_error := Some ''Function p() not found'',
           run := log_progress task_id ''failed_validation'' 0 False ''Function p() not found''
                    ((bump_validation_failed ((run v)\<lparr>requests := requests (run v) @
                        [attempt_prompt (demo_env demo_exec (always_answers [])) task_id
                           train_examples test_examples attempt v],
                        api_calls := api_calls (run v) + 1\<rparr>))
                       \<lparr>failed_files := (failed_files (run v))((task_id, attempt + 1) \<mapsto> [])\<rparr>)\<rparr>)"
proof -
  let ?env = "demo_env demo_exec (always_answers [])"
  have g: "llm_create ?env (length (requests (run v)))
          (attempt_prompt ?env task_id train_examples test_examples attempt v) = Inr []"
    by (simp add: demo_env_def always_answers_def)
  have p: "ast_parse ?env (extract_code []) = ParseOk"
    by (simp add: extract_empty demo_env_def demo_parse_def src_unbalanced_def)
  have v: "passes_training_examples ?env task_data (extract_code []) =
             Done (False, ''Function p() not found'')"
    by (simp add: extract_empty passes_empty)
  from attempt_body_rejected [OF g p v, of cfg] show ?thesis
    by (simp add: extract_empty)
qed

lemma requests_after_failures:
  "map_result (\<lambda>v'. requests (run v'))
     (attempt_loop
        (attempt_body (demo_env demo_exec always_fails) default_config 1 flip_task
           [flip_example] [])
        (attempts_range default_config) (initial_vars fresh_state)) =
   Done [INITIAL_PROMPT_TEMPLATE ''[ ... ]'' ''[]'', INITIAL_PROMPT_TEMPLATE ''[ ... ]'' ''[]'',
         INITIAL_PROMPT_TEMPLATE ''[ ... ]'' ''[]'']"
  by (simp add: attempts_default fails_step retry_default prompt_without_candidate
        initial_vars_def fresh_state_def log_progress_def bump_exception_def)

lemma requests_after_empty_sources:
  "map_result (\<lambda>v'. requests (run v'))
     (attempt_loop
        (attempt_body (demo_env demo_exec (always_answers [])) default_config 1 flip_task
           [flip_example] [])
        (attempts_range default_config) (initial_vars fresh_state)) =
   Done [INITIAL_PROMPT_TEMPLATE ''[ ... ]'' ''[]'', INITIAL_PROMPT_TEMPLATE ''[ ... ]'' ''[]'',
         INITIAL_PROMPT_TEMPLATE ''[ ... ]'' ''[]'']"
  by (simp add: attempts_default empty_step retry_default prompt_without_candidate
        initial_vars_def fresh_state_def log_progress_def bump_validation_failed_def)

text \<open>
  Claim C7, as stated, fails. When the generation service fails on every call, no candidate
  is ever stored, and the second and the third attempt send the initial prompt again. When
  the service answers with an empty text, the stored candidate is the empty source, and the
  second and the third attempt send the initial prompt too, not the refinement prompt with
  that source and the verdict \<open>Function p() not found\<close>.
\<close>

theorem refinement_prompt_counterexample:
  "map_result (\<lambda>v'. requests (run v'))
     (attempt_loop
        (attempt_body (demo_env demo_exec always_fails) default_config 1 flip_task
           [flip_example] [])
        (attempts_range default_config) (initial_vars fresh_state)) =
   Done [INITIAL_PROMPT_TEMPLATE ''[ ... ]'' ''[]'', INITIAL_PROMPT_TEMPLATE ''[ ... ]'' ''[]'',
         INITIAL_PROMPT_TEMPLATE ''[ ... ]'' ''[]''] \<and>
   map_result (\<lambda>v'. requests (run v'))
     (attempt_loop
        (attempt_body (demo_env demo_exec (always_answers [])) default_config 1 flip_task
           [flip_example] [])
        (attempts_range default_config) (initial_vars fresh_state)) =
   Done [INITIAL_PROMPT_TEMPLATE ''[ ... ]'' ''[]'', INITIAL_PROMPT_TEMPLATE ''[ ... ]'' ''[]'',
         INITIAL_PROMPT_TEMPLATE ''[ ... ]'' ''[]''] \<and>
   INITIAL_PROMPT_TEMPLATE ''[ ... ]'' ''[]'' \<noteq>
     REFINEMENT_PROMPT_TEMPLATE [] ''Function p() not found'' ''[ ... ]'' ''[]''"
  using requests_after_failures requests_after_empty_sources
    initial_not_refinement [of "''[ ... ]''" "''[]''" "[]" "''Function p() not found''"
      "''[ ... ]''" "''[]''"]
  by (intro conjI)

text \<open>
  Claim C7, amended. After an attempt that did not end in acceptance and in which the
  service answered and the parser returned, the stored candidate is the extracted source
  and the stored message is the rendering of the verdict: the syntax error text, or the
  validator's message. The prompt of the next attempt is the refinement prompt with that
  source and that message when both are not empty, and the initial prompt otherwise. While
  no candidate is stored (the service failed on every attempt so far), the prompt of the
  next attempt is the initial prompt.
\<close>

theorem next_prompt_after_failed_attempt:
  assumes "attempt_body env cfg task_id task_data train_examples test_examples attempt v =
             Done (c, v')"
    and "\<not> success v'"
  shows "(\<forall>raw. llm_create env (length (requests (run v)))
                   (attempt_prompt env task_id train_examples test_examples attempt v) = Inr raw \<and>
                 (\<forall>e. ast_parse env (extract_code raw) \<noteq> ParseRaises e) \<longrightarrow>
            (\<exists>message.
               previous_code v' = Some (extract_code raw) \<and>
               previous_error v' = Some message \<and>
               (if ast_parse env (extract_code raw) = ParseSyntaxError
                then message = ''Syntax error: Code has invalid Python syntax''
                else passes_training_examples env task_data (extract_code raw) =
                       Done (False, message)) \<and>
               attempt_prompt env task_id train_examples test_examples (Suc attempt) v' =
                 (if extract_code raw \<noteq> [] \<and> message \<noteq> []
                  then REFINEMENT_PROMPT_TEMPLATE (extract_code raw) message
                         (json_dumps env train_examples)
                         (if test_examples \<noteq> [] then json_dumps env (take 3 test_examples)
                          else ''[]'')
                  else INITIAL_PROMPT_TEMPLATE (json_dumps env train_examples)
                         (if test_examples \<noteq> [] then json_dumps env (take 3 test_examples)
                          else ''[]'')))) \<and>
         (previous_code v' = None \<longrightarrow>
            attempt_prompt env task_id train_examples test_examples (Suc attempt) v' =
              INITIAL_PROMPT_TEMPLATE (json_dumps env train_examples)
                (if test_examples \<noteq> [] then json_dumps env (take 3 test_examples)
                 else ''[]''))"
proof (intro conjI allI impI)
  fix raw
  assume h: "llm_create env (length (requests (run v)))
               (attempt_prompt env task_id train_examples test_examples attempt v) = Inr raw \<and>
             (\<forall>e. ast_parse env (extract_code raw) \<noteq> ParseRaises e)"
  then have g: "llm_create env (length (requests (run v)))
               (attempt_prompt env task_id train_examples test_examples attempt v) = Inr raw"
    by simp
  show "\<exists>message.
          previous_code v' = Some (extract_code raw) \<and>
          previous_error v' = Some message \<and>
          (if ast_parse env (extract_code raw) = ParseSyntaxError
           then message = ''Syntax error: Code has invalid Python syntax''
           else passes_training_examples env task_data (extract_code raw) =
                  Done (False, message)) \<and>
          attempt_prompt env task_id train_examples test_examples (Suc attempt) v' =
            (if extract_code raw \<noteq> [] \<and> message \<noteq> []
             then REFINEMENT_PROMPT_TEMPLATE (extract_code raw) message
                    (json_dumps env train_examples)
                    (if test_examples \<noteq> [] then json_dumps env (take 3 test_examples)
                     else ''[]'')
             else INITIAL_PROMPT_TEMPLATE (json_dumps env train_examples)
                    (if test_examples \<noteq> [] then json_dumps env (take 3 test_examples)
                     else ''[]''))"
  proof (cases "ast_parse env (extract_code raw)")
    case ParseOk
    show ?thesis
    proof (cases "passes_training_examples env task_data (extract_code raw)")
      case Blocks
      from attempt_body_blocks [OF g ParseOk Blocks] assms(1) show ?thesis by simp
    next
      case (Aborts e)
      from attempt_body_aborts [OF g ParseOk Aborts] assms(1) show ?thesis by simp
    next
      case (Done verdict)
      obtain passed message where verdict: "verdict = (passed, message)" by (cases verdict)
      show ?thesis
      proof (cases passed)
        case True
        with Done verdict attempt_body_accepted [OF g ParseOk, where task_data = task_data
            and message = message] assms
        show ?thesis by auto
      next
        case False
        with Done verdict attempt_body_rejected [OF g ParseOk, where task_data = task_data
            and message = message] assms(1) ParseOk
        show ?thesis
          by (auto simp: attempt_prompt_def build_prompt_def Let_def)
      qed
    qed
  next
    case ParseSyntaxError
    with attempt_body_syntax_error [OF g ParseSyntaxError] assms(1)
    show ?thesis
      by (auto simp: attempt_prompt_def build_prompt_def Let_def)
  next
    case (ParseRaises e)
    with h show ?thesis by simp
  qed
next
  assume "previous_code v' = None"
  then show "attempt_prompt env task_id train_examples test_examples (Suc attempt) v' =
              INITIAL_PROMPT_TEMPLATE (json_dumps env train_examples)
                (if test_examples \<noteq> [] then json_dumps env (take 3 test_examples)
                 else ''[]'')"
    by (simp add: attempt_prompt_def build_prompt_def Let_def)
qed

lemma extract_unbalanced: "extract_code src_unbalanced = src_unbalanced"
  unfolding src_unbalanced_def by code_simp

theorem next_prompt_after_failed_attempt_witness:
  "(\<exists>c v'.
     attempt_body (demo_env demo_exec (always_answers src_unbalanced)) default_config 1
       flip_task [flip_example] [] 0 (initial_vars fresh_state) = Done (c, v') \<and>
     \<not> success v' \<and>
     previous_code v' = Some src_unbalanced \<and>
     attempt_prompt (demo_env demo_exec (always_answers src_unbalanced)) 1
       [flip_example] [] (Suc 0) v' =
     REFINEMENT_PROMPT_TEMPLATE src_unbalanced ''Syntax error: Code has invalid Python syntax''
       ''[ ... ]'' ''[]'') \<and>
   (\<exists>c v'.
     attempt_body (demo_env demo_exec always_fails) default_config 1
       flip_task [flip_example] [] 0 (initial_vars fresh_state) = Done (c, v') \<and>
     \<not> success v' \<and>
     previous_code v' = None \<and>
     attempt_prompt (demo_env demo_exec always_fails) 1 [flip_example] [] (Suc 0) v' =
     INITIAL_PROMPT_TEMPLATE ''[ ... ]'' ''[]'')"
proof -
  let ?env = "demo_env demo_exec (always_answers src_unbalanced)"
  let ?v = "initial_vars fresh_state"
  have g: "llm_create ?env (length (requests (run ?v)))
             (attempt_prompt ?env 1 [flip_example] [] 0 ?v) = Inr src_unbalanced"
    by (simp add: demo_env_def always_answers_def)
  have p: "ast_parse ?env (extract_code src_unbalanced) = ParseSyntaxError"
    by (simp add: extract_unbalanced demo_env_def demo_parse_def)
  from attempt_body_syntax_error [OF g p, of default_config flip_task]
  obtain c v' where
    step: "attempt_body ?env default_config 1 flip_task [flip_example] [] 0 ?v = Done (c, v')"
    and ns: "\<not> success v'"
    by (simp add: initial_vars_def)
  from p have np: "\<forall>e. ast_parse ?env (extract_code src_unbalanced) \<noteq> ParseRaises e"
    by simp
  from next_prompt_after_failed_attempt [OF step ns] g np
  obtain message where
    pc: "previous_code v' = Some (extract_code src_unbalanced)" and
    m: "if ast_parse ?env (extract_code src_unbalanced) = ParseSyntaxError
        then message = ''Syntax error: Code has invalid Python syntax''
        else passes_training_examples ?env flip_task (extract_code src_unbalanced) =
               Done (False, message)" and
    pr: "attempt_prompt ?env 1 [flip_example] [] (Suc 0) v' =
           (if extract_code src_unbalanced \<noteq> [] \<and> message \<noteq> []
            then REFINEMENT_PROMPT_TEMPLATE (extract_code src_unbalanced) message
                   (json_dumps ?env [flip_example])
                   (if ([] :: example list) \<noteq> [] then json_dumps ?env (take 3 []) else ''[]'')
            else INITIAL_PROMPT_TEMPLATE (json_dumps ?env [flip_example])
                   (if ([] :: example list) \<noteq> [] then json_dumps ?env (take 3 []) else ''[]''))"
    by blast
  from m p have msg: "message = ''Syntax error: Code has invalid Python syntax''" by simp
  have ne: "src_unbalanced \<noteq> []" by (simp add: src_unbalanced_def)
  have d: "json_dumps ?env [flip_example] = ''[ ... ]''"
    by (simp add: demo_env_def demo_dumps_def)
  from pr have "attempt_prompt ?env 1 [flip_example] [] (Suc 0) v' =
     REFINEMENT_PROMPT_TEMPLATE src_unbalanced ''Syntax error: Code has invalid Python syntax''
       ''[ ... ]'' ''[]''"
    unfolding extract_unbalanced msg d using ne by simp
  with step ns pc have first: "\<exists>c v'.
     attempt_body ?env default_config 1 flip_task [flip_example] [] 0 ?v = Done (c, v') \<and>
     \<not> success v' \<and>
     previous_code v' = Some src_unbalanced \<and>
     attempt_prompt ?env 1 [flip_example] [] (Suc 0) v' =
     REFINEMENT_PROMPT_TEMPLATE src_unbalanced ''Syntax error: Code has invalid Python syntax''
       ''[ ... ]'' ''[]''"
    unfolding extract_unbalanced by blast
  let ?envf = "demo_env demo_exec always_fails"
  from fails_step [of default_config 1 flip_task "[flip_example]" "[]" 0 ?v]
  obtain cf vf where
    stepf: "attempt_body ?envf default_config 1 flip_task [flip_example] [] 0 ?v =
              Done (cf, vf)"
    and nsf: "\<not> success vf" and pcf: "previous_code vf = None"
    by (simp add: initial_vars_def)
  have df: "json_dumps ?envf [flip_example] = ''[ ... ]''"
    by (simp add: demo_env_def demo_dumps_def)
  from next_prompt_after_failed_attempt [OF stepf nsf] pcf
  have "attempt_prompt ?envf 1 [flip_example] [] (Suc 0) vf =
          INITIAL_PROMPT_TEMPLATE (json_dumps ?envf [flip_example])
            (if ([] :: example list) \<noteq> [] then json_dumps ?envf (take 3 []) else ''[]'')"
    by blast
  then have "attempt_prompt ?envf 1 [flip_example] [] (Suc 0) vf =
          INITIAL_PROMPT_TEMPLATE ''[ ... ]'' ''[]''"
    unfolding df by simp
  with stepf nsf pcf have second: "\<exists>c v'.
     attempt_body ?envf default_config 1 flip_task [flip_example] [] 0 ?v = Done (c, v') \<and>
     \<not> success v' \<and>
     previous_code v' = None \<and>
     attempt_prompt ?envf 1 [flip_example] [] (Suc 0) v' =
     INITIAL_PROMPT_TEMPLATE ''[ ... ]'' ''[]''"
    by blast
  from first second show ?thesis by (rule conjI)
qed

end
